theory Spec2Isabelle
  imports Complex_Main
begin

section \<open>EV ChargeNet: charging sessions, slot accounting, queue, favorites, registration\<close>

text \<open>
  A shallow embedding of the state-changing handlers of \<^verbatim>\<open>script.js\<close>:
  \<^verbatim>\<open>startCharging\<close>, \<^verbatim>\<open>stopCharging\<close>, \<^verbatim>\<open>joinQueue\<close>, \<^verbatim>\<open>toggleFavorite\<close>,
  \<^verbatim>\<open>handleRegister\<close> and the submit handler of \<^verbatim>\<open>#admin-station-form\<close>.

  The Firestore database is an explicit record of four collections, each a map from
  document identifiers to documents. Every handler takes the database and returns an
  outcome together with the database afterwards; the form handler has a result type of
  its own. Rendering, logging and toasts are left out: they do not write any document.

  JavaScript numbers that hold prices, energy and cost are modelled as exact reals, so
  IEEE rounding is not part of this model; slot counts, loyalty points and durations are
  integers. Timestamps are integers in milliseconds, as \<^verbatim>\<open>Date.now()\<close> and
  \<^verbatim>\<open>toDate().getTime()\<close> give them. The strings of the admin form's number inputs
  go through \<^verbatim>\<open>parseInt\<close> as in the source, which may give \<^verbatim>\<open>NaN\<close>.
\<close>

subsection \<open>Documents\<close>

type_synonym doc_id = string
type_synonym timestamp = int

record slots =
  total :: int
  available :: int

text \<open>
  A station document. \<^verbatim>\<open>queue\<close> and \<^verbatim>\<open>currentPrice\<close> are the two fields the source
  itself reads as possibly absent (\<^verbatim>\<open>station.queue?.length\<close>,
  \<^verbatim>\<open>station.currentPrice || station.pricePerKwh\<close>).
\<close>

record station =
  name :: string
  city :: string
  lat :: real
  lng :: real
  mobile :: string
  slots :: slots
  pricePerKwh :: real
  status :: string
  images :: "string list"
  amenities :: "string list"
  chargerTypes :: "string list"
  queue :: "doc_id list option"
  currentPrice :: "real option"

record session =
  userId :: doc_id
  stationId :: doc_id
  startTime :: timestamp

record booking =
  userId :: doc_id
  stationId :: doc_id
  createdAt :: timestamp
  duration :: int
  cost :: real
  kwhConsumed :: real

record profile =
  favorites :: "doc_id list"
  vehicle :: string
  theme :: string
  loyaltyPoints :: int
  hasCompletedTour :: bool

record user_doc =
  email :: string
  role :: string
  profile :: profile

record db =
  stations :: "doc_id \<rightharpoonup> station"
  activeSessions :: "doc_id \<rightharpoonup> session"
  users :: "doc_id \<rightharpoonup> user_doc"
  bookings :: "doc_id \<rightharpoonup> booking"

subsection \<open>Errors and outcomes\<close>

text \<open>
  \<^item> \<open>StationNotFound\<close>: \<^verbatim>\<open>throw "Station does not exist!"\<close>
  \<^item> \<open>NoSlotsAvailable\<close>: \<^verbatim>\<open>throw "No available slots!"\<close>
  \<^item> \<open>SessionNotFound\<close>: \<^verbatim>\<open>throw "Session not found!"\<close>
  \<^item> \<open>TypeError\<close>: a property read on \<^verbatim>\<open>undefined\<close> (the station is not in the local
    \<^verbatim>\<open>stations\<close> array)
  \<^item> \<open>DocumentMissing\<close>: the store rejects an \<^verbatim>\<open>update\<close> of a document that does not exist
  \<^item> \<open>SlotsExceedTotal\<close>: the form's "Available slots cannot be greater than total slots."
  \<^item> \<open>PasswordTooShort\<close>: "Password must be at least 6 characters."
  \<^item> \<open>AuthFailed\<close>: the identity provider rejected the sign-up
\<close>

datatype error =
    StationNotFound
  | NoSlotsAvailable
  | SessionNotFound
  | TypeError
  | DocumentMissing
  | SlotsExceedTotal
  | PasswordTooShort
  | AuthFailed

datatype outcome = Ok | Failed error

subsection \<open>The store's write primitives inside a transaction\<close>

text \<open>
  \<^verbatim>\<open>update\<close> needs the document to exist, \<^verbatim>\<open>set\<close> creates or overwrites,
  \<^verbatim>\<open>delete\<close> succeeds whether or not the document exists. A transaction whose body
  fails commits nothing.
\<close>

definition tx_update_station :: "doc_id \<Rightarrow> (station \<Rightarrow> station) \<Rightarrow> db \<Rightarrow> error + db" where
  "tx_update_station ref f d =
     (case stations d ref of
        None \<Rightarrow> Inl DocumentMissing
      | Some s \<Rightarrow> Inr (d\<lparr>stations := (stations d)(ref \<mapsto> f s)\<rparr>))"

definition tx_update_user :: "doc_id \<Rightarrow> (user_doc \<Rightarrow> user_doc) \<Rightarrow> db \<Rightarrow> error + db" where
  "tx_update_user ref f d =
     (case users d ref of
        None \<Rightarrow> Inl DocumentMissing
      | Some u \<Rightarrow> Inr (d\<lparr>users := (users d)(ref \<mapsto> f u)\<rparr>))"

definition tx_delete_session :: "doc_id \<Rightarrow> db \<Rightarrow> error + db" where
  "tx_delete_session ref d = Inr (d\<lparr>activeSessions := (activeSessions d)(ref := None)\<rparr>)"

definition tx_set_session :: "doc_id \<Rightarrow> session \<Rightarrow> db \<Rightarrow> error + db" where
  "tx_set_session ref s d = Inr (d\<lparr>activeSessions := (activeSessions d)(ref \<mapsto> s)\<rparr>)"

definition tx_set_booking :: "doc_id \<Rightarrow> booking \<Rightarrow> db \<Rightarrow> error + db" where
  "tx_set_booking ref b d = Inr (d\<lparr>bookings := (bookings d)(ref \<mapsto> b)\<rparr>)"

definition and_then :: "error + db \<Rightarrow> (db \<Rightarrow> error + db) \<Rightarrow> error + db" where
  "and_then r f = (case r of Inl e \<Rightarrow> Inl e | Inr d \<Rightarrow> f d)"

definition runTransaction :: "(db \<Rightarrow> error + db) \<Rightarrow> db \<Rightarrow> outcome \<times> db" where
  "runTransaction body d =
     (case body d of Inl e \<Rightarrow> (Failed e, d) | Inr d' \<Rightarrow> (Ok, d'))"

text \<open>\<^verbatim>\<open>FieldValue.increment(n)\<close> on \<^verbatim>\<open>slots.available\<close> and on \<^verbatim>\<open>profile.loyaltyPoints\<close>.\<close>

definition increment_available :: "int \<Rightarrow> station \<Rightarrow> station" where
  "increment_available n s = s\<lparr>slots := (slots s)\<lparr>available := available (slots s) + n\<rparr>\<rparr>"

definition increment_loyaltyPoints :: "int \<Rightarrow> user_doc \<Rightarrow> user_doc" where
  "increment_loyaltyPoints n u =
     u\<lparr>profile := (profile u)\<lparr>loyaltyPoints := loyaltyPoints (profile u) + n\<rparr>\<rparr>"

subsection \<open>startCharging\<close>

text \<open>
  \<^verbatim>\<open>startCharging(stationId)\<close>, lines 882 to 909. \<open>uid\<close> is \<^verbatim>\<open>loggedInUser.uid\<close>,
  \<open>sessionRef\<close> the identifier that \<^verbatim>\<open>db.collection('activeSessions').doc()\<close> generates and
  \<open>now\<close> the server timestamp.
\<close>

definition startCharging ::
  "doc_id \<Rightarrow> doc_id \<Rightarrow> doc_id \<Rightarrow> timestamp \<Rightarrow> db \<Rightarrow> outcome \<times> db" where
  "startCharging uid stationId' sessionRef now d =
     runTransaction (\<lambda>t.
       case stations t stationId' of
         None \<Rightarrow> Inl StationNotFound
       | Some stationData \<Rightarrow>
           if available (slots stationData) \<le> 0 then Inl NoSlotsAvailable
           else and_then
             (tx_update_station stationId'
                (\<lambda>s. s\<lparr>slots := (slots s)\<lparr>available := available (slots stationData) - 1\<rparr>\<rparr>) t)
             (tx_set_session sessionRef
                \<lparr>session.userId = uid, session.stationId = stationId', startTime = now\<rparr>)) d"

text \<open>
  Calls of \<^verbatim>\<open>startCharging\<close> on one station, committed by the store one after the
  other in the order given; each call is the caller's \<open>uid\<close>, the identifier generated
  for the session and the server timestamp. The result lists, for each call, its outcome
  and the database it leaves.
\<close>

fun startCharging_calls ::
  "(doc_id \<times> doc_id \<times> timestamp) list \<Rightarrow> doc_id \<Rightarrow> db \<Rightarrow> (outcome \<times> db) list" where
  "startCharging_calls [] stationId' d = []"
| "startCharging_calls ((uid, sessionRef, now) # calls) stationId' d =
     startCharging uid stationId' sessionRef now d
       # startCharging_calls calls stationId' (snd (startCharging uid stationId' sessionRef now d))"

text \<open>The slot count of the station that a call leaves behind.\<close>

definition post_available :: "doc_id \<Rightarrow> outcome \<times> db \<Rightarrow> int option" where
  "post_available stationId' r =
     map_option (\<lambda>s. available (slots s)) (stations (snd r) stationId')"

subsection \<open>stopCharging\<close>

text \<open>\<^verbatim>\<open>stations.find(s => s.id === id)\<close> on the local array of station documents with their ids.\<close>

fun find_station :: "(doc_id \<times> station) list \<Rightarrow> doc_id \<Rightarrow> station option" where
  "find_station [] i = None"
| "find_station ((j, s) # rest) i = (if j = i then Some s else find_station rest i)"

text \<open>
  \<^verbatim>\<open>stationData.currentPrice || stationData.pricePerKwh\<close>: the left operand when it is
  truthy (present and not zero), the right operand otherwise.
\<close>

definition effectivePrice :: "station \<Rightarrow> real" where
  "effectivePrice stationData =
     (case currentPrice stationData of
        None \<Rightarrow> pricePerKwh stationData
      | Some p \<Rightarrow> if p \<noteq> 0 then p else pricePerKwh stationData)"

text \<open>
  \<^verbatim>\<open>stopCharging(sessionId)\<close>, lines 935 to 977. \<open>uid\<close> is \<^verbatim>\<open>loggedInUser.uid\<close>,
  \<open>cache\<close> the local \<^verbatim>\<open>stations\<close> array, \<open>clientNow\<close> is \<^verbatim>\<open>Date.now()\<close>,
  \<open>serverNow\<close> the server timestamp and \<open>bookingRef\<close> the identifier that
  \<^verbatim>\<open>db.collection('bookings').doc()\<close> generates.

  The session is read by \<^verbatim>\<open>await sessionRef.get()\<close> before the transaction, and the
  transaction body reads nothing: \<open>seen\<close> is the database when that read was answered,
  \<open>d\<close> the database on which the transaction's four writes are committed. They are the
  same database unless something was committed in between.
\<close>

definition stopCharging ::
  "doc_id \<Rightarrow> (doc_id \<times> station) list \<Rightarrow> timestamp \<Rightarrow> timestamp \<Rightarrow> doc_id \<Rightarrow> doc_id \<Rightarrow> db \<Rightarrow> db
     \<Rightarrow> outcome \<times> db" where
  "stopCharging uid cache clientNow serverNow bookingRef sessionId seen d =
     (case activeSessions seen sessionId of
        None \<Rightarrow> (Failed SessionNotFound, d)
      | Some session \<Rightarrow>
          (case find_station cache (session.stationId session) of
             None \<Rightarrow> (Failed TypeError, d)
           | Some stationData \<Rightarrow>
               (let duration' = (clientNow - startTime session) div 1000;
                    kwhConsumed' = (real_of_int duration' / 3600) * 25;
                    cost' = kwhConsumed' * effectivePrice stationData
                in runTransaction (\<lambda>t.
                     and_then (and_then (and_then
                       (tx_delete_session sessionId t)
                       (tx_update_station (session.stationId session) (increment_available 1)))
                       (tx_update_user uid (increment_loyaltyPoints 10)))
                       (tx_set_booking bookingRef
                          \<lparr>booking.userId = session.userId session,
                           booking.stationId = session.stationId session,
                           createdAt = serverNow,
                           duration = duration',
                           cost = cost',
                           kwhConsumed = kwhConsumed'\<rparr>)) d)))"

subsection \<open>joinQueue\<close>

text \<open>
  \<^verbatim>\<open>FieldValue.arrayUnion(x)\<close>: the array with \<open>x\<close> added at the end unless it is
  already an element; an absent field counts as the empty array.
\<close>

definition arrayUnion :: "'a list option \<Rightarrow> 'a \<Rightarrow> 'a list" where
  "arrayUnion field x =
     (let xs = (case field of None \<Rightarrow> [] | Some ys \<Rightarrow> ys)
      in if x \<in> set xs then xs else xs @ [x])"

text \<open>\<^verbatim>\<open>joinQueue(stationId)\<close>, lines 1146 to 1158: one \<^verbatim>\<open>update\<close> of the station document.\<close>

definition joinQueue :: "doc_id \<Rightarrow> doc_id \<Rightarrow> db \<Rightarrow> outcome \<times> db" where
  "joinQueue uid stationId' d =
     runTransaction
       (tx_update_station stationId' (\<lambda>s. s\<lparr>queue := Some (arrayUnion (queue s) uid)\<rparr>)) d"

text \<open>A sequence of \<^verbatim>\<open>joinQueue\<close> calls on one station, by the users in the order given.\<close>

fun joinQueue_calls :: "doc_id list \<Rightarrow> doc_id \<Rightarrow> db \<Rightarrow> db" where
  "joinQueue_calls [] stationId' d = d"
| "joinQueue_calls (uid # uids) stationId' d =
     joinQueue_calls uids stationId' (snd (joinQueue uid stationId' d))"

subsection \<open>toggleFavorite\<close>

text \<open>\<^verbatim>\<open>Array.prototype.indexOf\<close>: the first index holding the value, or \<open>-1\<close>.\<close>

fun indexOf_from :: "'a list \<Rightarrow> 'a \<Rightarrow> int \<Rightarrow> int" where
  "indexOf_from [] x i = - 1"
| "indexOf_from (y # ys) x i = (if y = x then i else indexOf_from ys x (i + 1))"

definition indexOf :: "'a list \<Rightarrow> 'a \<Rightarrow> int" where
  "indexOf xs x = indexOf_from xs x 0"

text \<open>\<^verbatim>\<open>xs.splice(index, 1)\<close> for an index that is not negative.\<close>

definition splice1 :: "int \<Rightarrow> 'a list \<Rightarrow> 'a list" where
  "splice1 index xs = take (nat index) xs @ drop (nat index + 1) xs"

text \<open>
  \<^verbatim>\<open>toggleFavorite(stationId)\<close>, lines 1132 to 1144, on the local \<^verbatim>\<open>userProfile\<close>;
  \<^verbatim>\<open>updateUserProfile\<close> then writes the whole profile to the user's document.
\<close>

definition toggleFavorite :: "doc_id \<Rightarrow> profile \<Rightarrow> profile" where
  "toggleFavorite stationId' userProfile =
     (let index = indexOf (favorites userProfile) stationId'
      in if index > - 1
         then userProfile\<lparr>favorites := splice1 index (favorites userProfile)\<rparr>
         else userProfile\<lparr>favorites := favorites userProfile @ [stationId']\<rparr>)"

definition updateUserProfile :: "doc_id \<Rightarrow> profile \<Rightarrow> db \<Rightarrow> outcome \<times> db" where
  "updateUserProfile uid userProfile d =
     runTransaction (tx_update_user uid (\<lambda>u. u\<lparr>profile := userProfile\<rparr>)) d"

subsection \<open>handleRegister\<close>

text \<open>
  The identity provider's \<^verbatim>\<open>createUserWithEmailAndPassword\<close> is a parameter: it rejects
  the sign-up or returns the new user's \<^verbatim>\<open>uid\<close> and \<^verbatim>\<open>email\<close>.
\<close>

datatype auth_result = Rejected | UserCredential doc_id string

definition initial_profile :: profile where
  "initial_profile =
     \<lparr>favorites = [], vehicle = ''Other'', theme = ''light'', loyaltyPoints = 0,
      hasCompletedTour = False\<rparr>"

text \<open>\<^verbatim>\<open>handleRegister\<close>, lines 114 to 144; \<open>role'\<close> is the value of \<^verbatim>\<open>#role-select\<close>.\<close>

definition handleRegister ::
  "(string \<Rightarrow> string \<Rightarrow> auth_result) \<Rightarrow> string \<Rightarrow> string \<Rightarrow> string \<Rightarrow> db \<Rightarrow> outcome \<times> db" where
  "handleRegister createUserWithEmailAndPassword email' password role' d =
     (if length password < 6 then (Failed PasswordTooShort, d)
      else
        (case createUserWithEmailAndPassword email' password of
           Rejected \<Rightarrow> (Failed AuthFailed, d)
         | UserCredential uid userEmail \<Rightarrow>
             (Ok, d\<lparr>users := (users d)(uid \<mapsto>
                   \<lparr>email = userEmail, role = role', profile = initial_profile\<rparr>)\<rparr>)))"

subsection \<open>The admin station form\<close>

text \<open>
  What \<^verbatim>\<open>parseInt\<close> returns: an integer or \<^verbatim>\<open>NaN\<close>.
\<close>

datatype number = NaN | Number int

text \<open>
  \<^verbatim>\<open>parseInt(inputString)\<close> without a radix: leading white space is skipped, one sign is
  read, a prefix \<^verbatim>\<open>0x\<close> or \<^verbatim>\<open>0X\<close> selects radix 16 and radix 10 is used otherwise, and
  the longest run of digits of that radix is the value; the rest of the string is
  ignored. Without any digit the result is \<^verbatim>\<open>NaN\<close>.
\<close>

definition is_whitespace :: "char \<Rightarrow> bool" where
  "is_whitespace c \<longleftrightarrow>
     c \<in> set [CHR '' '', CHR 0x09, CHR 0x0A, CHR 0x0B, CHR 0x0C, CHR 0x0D]"

definition digit_value :: "char \<Rightarrow> nat option" where
  "digit_value c =
     (let n = (of_char c :: nat)
      in if 48 \<le> n \<and> n \<le> 57 then Some (n - 48)
         else if 97 \<le> n \<and> n \<le> 122 then Some (n - 87)
         else if 65 \<le> n \<and> n \<le> 90 then Some (n - 55)
         else None)"

definition is_digit_of :: "nat \<Rightarrow> char \<Rightarrow> bool" where
  "is_digit_of R c = (case digit_value c of None \<Rightarrow> False | Some v \<Rightarrow> v < R)"

definition digits_value :: "nat \<Rightarrow> string \<Rightarrow> int" where
  "digits_value R Z =
     foldl (\<lambda>acc c. acc * int R + (case digit_value c of None \<Rightarrow> 0 | Some v \<Rightarrow> int v)) 0 Z"

definition parseInt :: "string \<Rightarrow> number" where
  "parseInt inputString =
     (let S = dropWhile is_whitespace inputString;
          sign = (if take 1 S = ''-'' then - 1 else 1);
          S1 = (if take 1 S = ''+'' \<or> take 1 S = ''-'' then drop 1 S else S);
          hex = (take 2 S1 = ''0x'' \<or> take 2 S1 = ''0X'');
          R = (if hex then 16 else 10);
          S2 = (if hex then drop 2 S1 else S1);
          Z = takeWhile (is_digit_of R) S2
      in if Z = [] then NaN else Number (sign * digits_value R Z))"

text \<open>The comparison \<^verbatim>\<open>a > b\<close> of two such numbers: false as soon as one is \<^verbatim>\<open>NaN\<close>.\<close>

fun js_gt :: "number \<Rightarrow> number \<Rightarrow> bool" where
  "js_gt (Number a) (Number b) = (a > b)"
| "js_gt a b = False"

text \<open>
  The values of the form's inputs, named after the input elements. The slot counts and
  the price are the strings that the handler passes to \<^verbatim>\<open>parseInt\<close>. Latitude and
  longitude are taken after \<^verbatim>\<open>parseFloat\<close>, and the two comma-separated lists after
  their splitting.
\<close>

record station_form =
  station_id :: string
  station_name :: string
  station_city :: string
  station_lat :: real
  station_lng :: real
  station_mobile :: string
  station_slots_total :: string
  station_slots_available :: string
  station_price :: string
  station_status :: string
  station_image :: string
  station_amenities :: "string list"
  station_chargers :: "string list"

text \<open>
  What the handler did: it stored a station and left the database given; or it refused;
  or it stored, under the identifier given, a document in which a slot count or the
  price is \<^verbatim>\<open>NaN\<close>. Station documents of this model hold integers there, so the
  database after such a write is not a value of the model.
\<close>

datatype form_result = Saved db | Refused error | SavedNaN doc_id

text \<open>
  The submit handler of \<^verbatim>\<open>#admin-station-form\<close>, lines 1289 to 1329. An empty
  \<^verbatim>\<open>station-id\<close> means a new station, stored under the identifier \<open>newRef\<close> that
  \<^verbatim>\<open>add\<close> generates; otherwise the named document is updated with the form fields.
\<close>

definition adminStationFormSubmit :: "station_form \<Rightarrow> doc_id \<Rightarrow> db \<Rightarrow> form_result" where
  "adminStationFormSubmit form newRef d =
     (let stationId' = station_id form;
          isEditing = (stationId' \<noteq> []);
          totalSlots = parseInt (station_slots_total form);
          availableSlots = parseInt (station_slots_available form)
      in if js_gt availableSlots totalSlots then Refused SlotsExceedTotal
         else
           (case (totalSlots, availableSlots, parseInt (station_price form)) of
              (Number t, Number a, Number p) \<Rightarrow>
                if isEditing then
                  (case tx_update_station stationId' (\<lambda>s. s
                     \<lparr>name := station_name form,
                      city := station_city form,
                      lat := station_lat form,
                      lng := station_lng form,
                      mobile := station_mobile form,
                      slots := \<lparr>total = t, available = a\<rparr>,
                      pricePerKwh := real_of_int p,
                      status := station_status form,
                      images := [station_image form],
                      amenities := station_amenities form,
                      chargerTypes := station_chargers form\<rparr>) d of
                     Inl e \<Rightarrow> Refused e
                   | Inr d' \<Rightarrow> Saved d')
                else
                  Saved (d\<lparr>stations := (stations d)(newRef \<mapsto>
                    \<lparr>name = station_name form,
                     city = station_city form,
                     lat = station_lat form,
                     lng = station_lng form,
                     mobile = station_mobile form,
                     slots = \<lparr>total = t, available = a\<rparr>,
                     pricePerKwh = real_of_int p,
                     status = station_status form,
                     images = [station_image form],
                     amenities = station_amenities form,
                     chargerTypes = station_chargers form,
                     queue = Some [],
                     currentPrice = None\<rparr>)\<rparr>)
            | _ \<Rightarrow>
                if isEditing then
                  (case stations d stationId' of
                     None \<Rightarrow> Refused DocumentMissing
                   | Some s \<Rightarrow> SavedNaN stationId')
                else SavedNaN newRef))"

text \<open>The database after the handler, where it has one: the new one if it was saved.\<close>

definition db_after :: "form_result \<Rightarrow> db \<Rightarrow> db" where
  "db_after r d = (case r of Saved d' \<Rightarrow> d' | Refused e \<Rightarrow> d | SavedNaN i \<Rightarrow> d)"

subsection \<open>Properties and example data\<close>

text \<open>The slot invariant of the data model: \<open>0 \<le> available \<le> total\<close>.\<close>

definition slot_invariant :: "station \<Rightarrow> bool" where
  "slot_invariant s \<longleftrightarrow> 0 \<le> available (slots s) \<and> available (slots s) \<le> total (slots s)"

text \<open>
  How the source reads a queue that may be absent (\<^verbatim>\<open>station.queue?.length || 0\<close>,
  \<^verbatim>\<open>station.queue && station.queue.includes(uid)\<close>): an absent queue has no entries.
\<close>

definition queue_list :: "station \<Rightarrow> doc_id list" where
  "queue_list s = (case queue s of None \<Rightarrow> [] | Some q \<Rightarrow> q)"

text \<open>
  The effective price in the words of the specification, for comparison with
  \<open>effectivePrice\<close>: the peak override price if set and higher than the base price, else
  the base price.
\<close>

definition spec_effectivePrice :: "station \<Rightarrow> real" where
  "spec_effectivePrice s =
     (case currentPrice s of
        None \<Rightarrow> pricePerKwh s
      | Some p \<Rightarrow> if p > pricePerKwh s then p else pricePerKwh s)"

text \<open>The booking object that \<^verbatim>\<open>stopCharging\<close> passes to \<^verbatim>\<open>transaction.set\<close>.\<close>

definition stop_booking :: "session \<Rightarrow> station \<Rightarrow> timestamp \<Rightarrow> timestamp \<Rightarrow> booking" where
  "stop_booking s stationData clientNow serverNow =
     \<lparr>booking.userId = session.userId s,
      booking.stationId = session.stationId s,
      createdAt = serverNow,
      duration = (clientNow - startTime s) div 1000,
      cost = real_of_int ((clientNow - startTime s) div 1000) / 3600 * 25
               * effectivePrice stationData,
      kwhConsumed = real_of_int ((clientNow - startTime s) div 1000) / 3600 * 25\<rparr>"

text \<open>
  The scenario of the specification: station \<open>S\<close> with one slot, free, base price 10,
  and the users \<open>A\<close> and \<open>B\<close>.
\<close>

definition station_S :: station where
  "station_S =
     \<lparr>name = ''S'', city = ''Surat'', lat = 21, lng = 72, mobile = [],
      slots = \<lparr>total = 1, available = 1\<rparr>, pricePerKwh = 10, status = ''Operational'',
      images = [''https://placehold.co/600x400''], amenities = [''Cafe''],
      chargerTypes = [''CCS''], queue = Some [], currentPrice = None\<rparr>"

definition user_A :: user_doc where
  "user_A = \<lparr>email = ''a@ev.net'', role = ''user'', profile = initial_profile\<rparr>"

definition user_B :: user_doc where
  "user_B = \<lparr>email = ''b@ev.net'', role = ''user'', profile = initial_profile\<rparr>"

definition db_S :: db where
  "db_S =
     \<lparr>stations = [''S'' \<mapsto> station_S],
      activeSessions = Map.empty,
      users = [''A'' \<mapsto> user_A, ''B'' \<mapsto> user_B],
      bookings = Map.empty\<rparr>"

text \<open>The admin form filled in for station \<open>S\<close>: as a new station, and as an edit of \<open>S\<close>.\<close>

definition form_S :: station_form where
  "form_S =
     \<lparr>station_id = [], station_name = ''S'', station_city = ''Surat'', station_lat = 21,
      station_lng = 72, station_mobile = [], station_slots_total = ''1'',
      station_slots_available = ''1'', station_price = ''10'',
      station_status = ''Operational'', station_image = ''https://placehold.co/600x400'',
      station_amenities = [''Cafe''], station_chargers = [''CCS'']\<rparr>"

definition form_S_edit :: station_form where
  "form_S_edit = form_S\<lparr>station_id := ''S''\<rparr>"

text \<open>User \<open>A\<close> starts a session at \<open>S\<close>, the admin saves the form for \<open>S\<close>, then \<open>A\<close> stops.\<close>

definition db_S_started :: db where
  "db_S_started = snd (startCharging ''A'' ''S'' ''s1'' 0 db_S)"

definition db_S_edited :: db where
  "db_S_edited = db_after (adminStationFormSubmit form_S_edit ''n1'' db_S_started) db_S_started"

definition db_S_stopped :: db where
  "db_S_stopped =
     snd (stopCharging ''A'' [(''S'', station_S)] 3600000 3600000 ''b1'' ''s1''
            db_S_edited db_S_edited)"

text \<open>
  User \<open>A\<close> starts a session at \<open>S\<close> and stops it twice (two clicks, or two tabs): both
  calls read the session before either transaction is committed.
\<close>

definition db_S_stop1 :: db where
  "db_S_stop1 =
     snd (stopCharging ''A'' [(''S'', station_S)] 3600000 3600000 ''b1'' ''s1''
            db_S_started db_S_started)"

definition db_S_stop2 :: db where
  "db_S_stop2 =
     snd (stopCharging ''A'' [(''S'', station_S)] 3600000 3600000 ''b2'' ''s1''
            db_S_started db_S_stop1)"

text \<open>Station \<open>S\<close> with an override price below the base price, and a session of one hour.\<close>

definition station_S_low :: station where
  "station_S_low = station_S\<lparr>slots := \<lparr>total = 1, available = 0\<rparr>, currentPrice := Some 5\<rparr>"

definition db_S_low :: db where
  "db_S_low =
     \<lparr>stations = [''S'' \<mapsto> station_S_low],
      activeSessions =
        [''s1'' \<mapsto> \<lparr>session.userId = ''A'', session.stationId = ''S'', startTime = 0\<rparr>],
      users = [''A'' \<mapsto> user_A],
      bookings = Map.empty\<rparr>"

text \<open>
  Station \<open>S\<close> with the override price 8 below the base price 10, in a local array of
  two stations, and a session of \<open>A\<close> that started at time 0.
\<close>

definition station_S_cut :: station where
  "station_S_cut = station_S\<lparr>slots := \<lparr>total = 1, available = 0\<rparr>, currentPrice := Some 8\<rparr>"

definition cache_TS :: "(doc_id \<times> station) list" where
  "cache_TS = [(''T'', station_S\<lparr>name := ''T'', pricePerKwh := 20\<rparr>), (''S'', station_S_cut)]"

definition db_S_cut :: db where
  "db_S_cut =
     \<lparr>stations = [''S'' \<mapsto> station_S_cut],
      activeSessions =
        [''s1'' \<mapsto> \<lparr>session.userId = ''A'', session.stationId = ''S'', startTime = 0\<rparr>],
      users = [''A'' \<mapsto> user_A, ''B'' \<mapsto> user_B],
      bookings = Map.empty\<rparr>"
text \<open>A sign-up that the identity provider accepts, giving the user identifier \<open>A\<close>.\<close>

definition accept_as_A :: "string \<Rightarrow> string \<Rightarrow> auth_result" where
  "accept_as_A email' password = UserCredential ''A'' email'"

section \<open>Theorems\<close>

lemmas tx_defs = runTransaction_def and_then_def tx_update_station_def tx_update_user_def
  tx_delete_session_def tx_set_session_def tx_set_booking_def

lemmas parseInt_defs = parseInt_def is_whitespace_def digit_value_def is_digit_of_def
  digits_value_def

subsection \<open>The handlers as case distinctions\<close>

lemma startCharging_cases:
  "startCharging uid sid sessionRef now d =
     (case stations d sid of
        None \<Rightarrow> (Failed StationNotFound, d)
      | Some st \<Rightarrow>
          if available (slots st) \<le> 0 then (Failed NoSlotsAvailable, d)
          else (Ok, d\<lparr>stations := (stations d)(sid \<mapsto>
                         st\<lparr>slots := (slots st)\<lparr>available := available (slots st) - 1\<rparr>\<rparr>),
                      activeSessions := (activeSessions d)(sessionRef \<mapsto>
                         \<lparr>session.userId = uid, session.stationId = sid, startTime = now\<rparr>)\<rparr>))"
  by (simp add: startCharging_def tx_defs split: option.splits)


lemma stopCharging_cases:
  "stopCharging uid cache clientNow serverNow bookingRef sessionId seen d =
     (case activeSessions seen sessionId of
        None \<Rightarrow> (Failed SessionNotFound, d)
      | Some s \<Rightarrow>
          (case find_station cache (session.stationId s) of
             None \<Rightarrow> (Failed TypeError, d)
           | Some stationData \<Rightarrow>
               (case stations d (session.stationId s) of
                  None \<Rightarrow> (Failed DocumentMissing, d)
                | Some st \<Rightarrow>
                    (case users d uid of
                       None \<Rightarrow> (Failed DocumentMissing, d)
                     | Some u \<Rightarrow>
                         (Ok, d\<lparr>activeSessions := (activeSessions d)(sessionId := None),
                                stations := (stations d)
                                   (session.stationId s \<mapsto> increment_available 1 st),
                                users := (users d)(uid \<mapsto> increment_loyaltyPoints 10 u),
                                bookings := (bookings d)(bookingRef \<mapsto>
                                   stop_booking s stationData clientNow serverNow)\<rparr>)))))"
  by (simp add: stopCharging_def tx_defs stop_booking_def Let_def split: option.splits)

lemma find_station_map_of: "find_station cache i = map_of cache i"
  by (induction cache) auto

lemma station_form_update:
  "s\<lparr>name := a, city := b, lat := c, lng := e, mobile := f, slots := g, pricePerKwh := h,
      status := i, images := j, amenities := k, chargerTypes := l\<rparr> =
   \<lparr>name = a, city = b, lat = c, lng = e, mobile = f, slots = g, pricePerKwh = h,
    status = i, images = j, amenities = k, chargerTypes = l, queue = queue s,
    currentPrice = currentPrice s\<rparr>"
  by (cases s) simp


lemma adminStationFormSubmit_numbers:
  assumes "parseInt (station_slots_total form) = Number t"
      and "parseInt (station_slots_available form) = Number a"
      and "parseInt (station_price form) = Number p"
  shows "adminStationFormSubmit form newRef d =
     (if a > t then Refused SlotsExceedTotal
      else if station_id form \<noteq> [] then
        (case stations d (station_id form) of
           None \<Rightarrow> Refused DocumentMissing
         | Some st \<Rightarrow>
            Saved (d\<lparr>stations := (stations d)(station_id form \<mapsto>
              \<lparr>name = station_name form,
               city = station_city form,
               lat = station_lat form,
               lng = station_lng form,
               mobile = station_mobile form,
               slots = \<lparr>total = t, available = a\<rparr>,
               pricePerKwh = real_of_int p,
               status = station_status form,
               images = [station_image form],
               amenities = station_amenities form,
               chargerTypes = station_chargers form,
               queue = queue st,
               currentPrice = currentPrice st\<rparr>)\<rparr>))
      else
        Saved (d\<lparr>stations := (stations d)(newRef \<mapsto>
              \<lparr>name = station_name form,
               city = station_city form,
               lat = station_lat form,
               lng = station_lng form,
               mobile = station_mobile form,
               slots = \<lparr>total = t, available = a\<rparr>,
               pricePerKwh = real_of_int p,
               status = station_status form,
               images = [station_image form],
               amenities = station_amenities form,
               chargerTypes = station_chargers form,
               queue = Some [],
               currentPrice = None\<rparr>)\<rparr>))"
  using assms
  by (simp add: adminStationFormSubmit_def Let_def tx_update_station_def station_form_update
        split: option.splits)

lemma parseInt_examples:
  "parseInt ''1'' = Number 1" "parseInt ''5'' = Number 5" "parseInt ''10'' = Number 10"
  "parseInt ''-1'' = Number (- 1)" "parseInt ''1e1'' = Number 1" "parseInt ''.5e1'' = NaN"
  by (simp_all add: parseInt_defs)

subsection \<open>The scenario, step by step\<close>

lemma db_S_started_eq:
  "db_S_started =
     \<lparr>stations = [''S'' \<mapsto> station_S\<lparr>slots := \<lparr>total = 1, available = 0\<rparr>\<rparr>],
      activeSessions =
        [''s1'' \<mapsto> \<lparr>session.userId = ''A'', session.stationId = ''S'', startTime = 0\<rparr>],
      users = [''A'' \<mapsto> user_A, ''B'' \<mapsto> user_B],
      bookings = Map.empty\<rparr>"
  by (simp add: db_S_started_def db_S_def startCharging_cases station_S_def)


lemma db_S_edited_eq:
  "db_S_edited =
     \<lparr>stations = [''S'' \<mapsto> station_S],
      activeSessions =
        [''s1'' \<mapsto> \<lparr>session.userId = ''A'', session.stationId = ''S'', startTime = 0\<rparr>],
      users = [''A'' \<mapsto> user_A, ''B'' \<mapsto> user_B],
      bookings = Map.empty\<rparr>"
proof -
  have "adminStationFormSubmit form_S_edit ''n1'' db_S_started =
      Saved \<lparr>stations = [''S'' \<mapsto> station_S],
        activeSessions =
          [''s1'' \<mapsto> \<lparr>session.userId = ''A'', session.stationId = ''S'', startTime = 0\<rparr>],
        users = [''A'' \<mapsto> user_A, ''B'' \<mapsto> user_B],
        bookings = Map.empty\<rparr>"
    by (simp add: adminStationFormSubmit_numbers [where t = 1 and a = 1 and p = 10]
          form_S_edit_def form_S_def parseInt_examples db_S_started_eq station_S_def)
  then show ?thesis
    by (simp add: db_S_edited_def db_after_def)
qed

lemma db_S_stopped_stations:
  "stations db_S_stopped = [''S'' \<mapsto> station_S\<lparr>slots := \<lparr>total = 1, available = 2\<rparr>\<rparr>]"
  by (simp add: db_S_stopped_def db_S_edited_eq stopCharging_cases increment_available_def
        station_S_def)

lemma db_S_stop1_eq:
  "stations db_S_stop1 = [''S'' \<mapsto> station_S]"
  "activeSessions db_S_stop1 = Map.empty"
  "users db_S_stop1 =
     [''B'' \<mapsto> user_B, ''A'' \<mapsto> user_A\<lparr>profile := initial_profile\<lparr>loyaltyPoints := 10\<rparr>\<rparr>]"
  by (simp_all add: db_S_stop1_def db_S_started_eq stopCharging_cases increment_available_def
        increment_loyaltyPoints_def station_S_def user_A_def initial_profile_def)

lemma db_S_stop2_stations:
  "stations db_S_stop2 = [''S'' \<mapsto> station_S\<lparr>slots := \<lparr>total = 1, available = 2\<rparr>\<rparr>]"
  by (simp add: db_S_stop2_def db_S_started_eq db_S_stop1_eq stopCharging_cases
        increment_available_def station_S_def)

subsection \<open>The slot invariant\<close>

text \<open>\<^verbatim>\<open>startCharging\<close> keeps \<open>0 \<le> available \<le> total\<close> for every station.\<close>

lemma startCharging_stations:
  assumes "stations (snd (startCharging uid sid sessionRef now d)) x = Some st'"
  shows "\<exists>st. stations d x = Some st \<and> (slot_invariant st \<longrightarrow> slot_invariant st')"
  using assms
  by (auto simp: startCharging_cases slot_invariant_def split: option.splits if_splits)

text \<open>
  C1. The invariant \<open>0 \<le> available \<le> total\<close> is not kept by every operation that
  writes \<open>slots.available\<close>. Starting from station \<open>S\<close> with one slot, free, where the
  invariant holds:
  \<^item> \<open>A\<close> starts a session, and stops it twice with both reads of the session answered
    before either transaction is committed: after the first stop \<open>S\<close> has 1 of 1 and
    the session is gone, after the second \<open>S\<close> has 2 of 1;
  \<^item> \<open>A\<close> starts a session, the admin saves the form for \<open>S\<close> with total 1 and
    available 1, and \<open>A\<close> stops: \<open>S\<close> has 2 of 1;
  \<^item> the admin form with available \<open>-1\<close> of total 1 is accepted and stored.
\<close>

theorem slot_invariant_violated:
  "map_option slot_invariant (stations db_S ''S'') = Some True \<and>
   map_option slot_invariant (stations db_S_started ''S'') = Some True \<and>
   map_option slot_invariant (stations db_S_stop1 ''S'') = Some True \<and>
   activeSessions db_S_stop1 ''s1'' = None \<and>
   map_option slots (stations db_S_stop2 ''S'') = Some \<lparr>total = 1, available = 2\<rparr> \<and>
   map_option slot_invariant (stations db_S_stop2 ''S'') = Some False \<and>
   map_option slot_invariant (stations db_S_edited ''S'') = Some True \<and>
   map_option slots (stations db_S_stopped ''S'') = Some \<lparr>total = 1, available = 2\<rparr> \<and>
   map_option slot_invariant (stations db_S_stopped ''S'') = Some False \<and>
   adminStationFormSubmit (form_S\<lparr>station_slots_available := ''-1''\<rparr>) ''n1'' db_S =
     Saved (db_S\<lparr>stations := (stations db_S)
              (''n1'' \<mapsto> station_S\<lparr>slots := \<lparr>total = 1, available = - 1\<rparr>\<rparr>)\<rparr>) \<and>
   \<not> slot_invariant (station_S\<lparr>slots := \<lparr>total = 1, available = - 1\<rparr>\<rparr>)"
  by (simp add: db_S_started_eq db_S_edited_eq db_S_stopped_stations db_S_stop1_eq
        db_S_stop2_stations db_S_def station_S_def slot_invariant_def form_S_def
        adminStationFormSubmit_numbers [where t = 1 and a = "- 1" and p = 10]
        parseInt_examples)

subsection \<open>startCharging\<close>

text \<open>
  C2. With \<open>sessionRef\<close> a new identifier, \<^verbatim>\<open>startCharging\<close> succeeds exactly when the
  station exists with \<open>available > 0\<close>. On success the database differs in exactly two
  places: the station's \<open>available\<close> is one less, and the session
  \<open>{userId, stationId, startTime}\<close> is stored under \<open>sessionRef\<close>, the one new key of
  \<open>activeSessions\<close>. A missing station gives \<open>StationNotFound\<close>, \<open>available = 0\<close> gives
  \<open>NoSlotsAvailable\<close>, and every failure returns the database as it was.
\<close>

theorem startCharging_correct:
  assumes fresh: "activeSessions d sessionRef = None"
  shows "(fst (startCharging uid sid sessionRef now d) = Ok \<longleftrightarrow>
           (\<exists>st. stations d sid = Some st \<and> 0 < available (slots st))) \<and>
         (\<forall>st. stations d sid = Some st \<and> 0 < available (slots st) \<longrightarrow>
            startCharging uid sid sessionRef now d =
              (Ok, d\<lparr>stations := (stations d)(sid \<mapsto>
                        st\<lparr>slots := (slots st)\<lparr>available := available (slots st) - 1\<rparr>\<rparr>),
                     activeSessions := (activeSessions d)(sessionRef \<mapsto>
                        \<lparr>session.userId = uid, session.stationId = sid, startTime = now\<rparr>)\<rparr>) \<and>
            dom (activeSessions (snd (startCharging uid sid sessionRef now d))) =
              insert sessionRef (dom (activeSessions d)) \<and>
            sessionRef \<notin> dom (activeSessions d)) \<and>
         (stations d sid = None \<longrightarrow>
            startCharging uid sid sessionRef now d = (Failed StationNotFound, d)) \<and>
         (\<forall>st. stations d sid = Some st \<and> available (slots st) = 0 \<longrightarrow>
            startCharging uid sid sessionRef now d = (Failed NoSlotsAvailable, d)) \<and>
         (fst (startCharging uid sid sessionRef now d) \<noteq> Ok \<longrightarrow>
            snd (startCharging uid sid sessionRef now d) = d)"
  using fresh by (auto simp: startCharging_cases split: option.splits)

text \<open>
  C2 in the scenario: \<open>A\<close> gets the only slot of \<open>S\<close>, \<open>B\<close> is then refused with
  \<open>NoSlotsAvailable\<close>, and a start at the unknown station \<open>T\<close> is refused with
  \<open>StationNotFound\<close>; both refusals leave the database as it was.
\<close>

theorem startCharging_correct_witness:
  "activeSessions db_S ''s1'' = None \<and>
   startCharging ''A'' ''S'' ''s1'' 0 db_S =
     (Ok, \<lparr>stations = [''S'' \<mapsto> station_S\<lparr>slots := \<lparr>total = 1, available = 0\<rparr>\<rparr>],
           activeSessions =
             [''s1'' \<mapsto> \<lparr>session.userId = ''A'', session.stationId = ''S'', startTime = 0\<rparr>],
           users = [''A'' \<mapsto> user_A, ''B'' \<mapsto> user_B],
           bookings = Map.empty\<rparr>) \<and>
   activeSessions db_S_started ''s2'' = None \<and>
   startCharging ''B'' ''S'' ''s2'' 5 db_S_started = (Failed NoSlotsAvailable, db_S_started) \<and>
   stations db_S ''T'' = None \<and>
   startCharging ''A'' ''T'' ''s1'' 0 db_S = (Failed StationNotFound, db_S)"
  using
    startCharging_correct [where d = db_S and sessionRef = "''s1''" and uid = "''A''"
      and sid = "''S''" and now = 0]
    startCharging_correct [where d = db_S_started and sessionRef = "''s2''" and uid = "''B''"
      and sid = "''S''" and now = 5]
    startCharging_correct [where d = db_S and sessionRef = "''s1''" and uid = "''A''"
      and sid = "''T''" and now = 0]
  by (simp add: db_S_started_eq db_S_def station_S_def startCharging_cases)

subsection \<open>Serialized calls of startCharging\<close>

lemma startCharging_no_slot:
  assumes "stations d sid = Some st" and "available (slots st) = 0"
  shows "startCharging uid sid sessionRef now d = (Failed NoSlotsAvailable, d)"
  using assms by (simp add: startCharging_cases)

lemma startCharging_takes_slot:
  assumes "stations d sid = Some st" and "available (slots st) = int (Suc k)"
  shows "\<exists>d' st'. startCharging uid sid sessionRef now d = (Ok, d') \<and>
           stations d' sid = Some st' \<and> available (slots st') = int k"
  using assms by (simp add: startCharging_cases)

lemma startCharging_calls_outcomes:
  assumes "stations d sid = Some st" and "available (slots st) = int k"
  shows "map fst (startCharging_calls calls sid d) =
           replicate (min k (length calls)) Ok
             @ replicate (length calls - k) (Failed NoSlotsAvailable)"
  using assms
proof (induction calls arbitrary: d st k)
  case Nil
  then show ?case by simp
next
  case (Cons c calls)
  obtain uid sessionRef now where c: "c = (uid, sessionRef, now)"
    by (cases c) auto
  show ?case
  proof (cases k)
    case 0
    with Cons.prems have r: "startCharging uid sid sessionRef now d = (Failed NoSlotsAvailable, d)"
      by (simp add: startCharging_no_slot)
    from Cons.IH [OF Cons.prems] 0 r c show ?thesis
      by (simp add: replicate_app_Cons_same)
  next
    case (Suc j)
    with Cons.prems startCharging_takes_slot [of d sid st j uid sessionRef now]
    obtain d' st' where r: "startCharging uid sid sessionRef now d = (Ok, d')"
      and st': "stations d' sid = Some st'" "available (slots st') = int j"
      by auto
    from Cons.IH [OF st'] Suc r c show ?thesis
      by simp
  qed
qed

lemma startCharging_calls_observed:
  assumes "stations d sid = Some st" and "available (slots st) = int k"
  shows "map (post_available sid) (filter (\<lambda>r. fst r = Ok) (startCharging_calls calls sid d)) =
           map (\<lambda>i. Some (int i)) (rev [k - min k (length calls)..<k])"
  using assms
proof (induction calls arbitrary: d st k)
  case Nil
  then show ?case by simp
next
  case (Cons c calls)
  obtain uid sessionRef now where c: "c = (uid, sessionRef, now)"
    by (cases c) auto
  show ?case
  proof (cases k)
    case 0
    with Cons.prems have r: "startCharging uid sid sessionRef now d = (Failed NoSlotsAvailable, d)"
      by (simp add: startCharging_no_slot)
    from Cons.IH [OF Cons.prems] 0 r c show ?thesis
      by simp
  next
    case (Suc j)
    with Cons.prems startCharging_takes_slot [of d sid st j uid sessionRef now]
    obtain d' st' where r: "startCharging uid sid sessionRef now d = (Ok, d')"
      and st': "stations d' sid = Some st'" "available (slots st') = int j"
      by auto
    have seen: "post_available sid (Ok, d') = Some (int j)"
      using st' by (simp add: post_available_def)
    have "j - min j (length calls) \<le> j" by simp
    then have upt: "[j - min j (length calls)..<Suc j] = [j - min j (length calls)..<j] @ [j]"
      by simp
    from Cons.IH [OF st'] Suc r c seen show ?thesis
      by (simp add: upt del: upt_Suc)
  qed
qed

text \<open>
  C6. Let \<open>N\<close> calls of \<^verbatim>\<open>startCharging\<close> on one station be committed one after the
  other, in any order, as the store serializes the transactions of concurrent callers,
  when the station has \<open>available = k < N\<close>. Then exactly \<open>k\<close> calls succeed, the first
  \<open>k\<close> to be committed, and the other \<open>N - k\<close> fail with \<open>NoSlotsAvailable\<close>. The slot
  counts that the successful calls leave are \<open>k - 1, \<dots>, 0\<close>, no two the same.
\<close>

theorem startCharging_serialized:
  assumes st: "stations d sid = Some st"
      and k: "available (slots st) = int k"
      and less: "k < length calls"
  shows "map fst (startCharging_calls calls sid d) =
           replicate k Ok @ replicate (length calls - k) (Failed NoSlotsAvailable) \<and>
         length (filter (\<lambda>r. fst r = Ok) (startCharging_calls calls sid d)) = k \<and>
         length (filter (\<lambda>r. fst r = Failed NoSlotsAvailable) (startCharging_calls calls sid d))
           = length calls - k \<and>
         map (post_available sid) (filter (\<lambda>r. fst r = Ok) (startCharging_calls calls sid d)) =
           map (\<lambda>i. Some (int i)) (rev [0..<k]) \<and>
         distinct (map (post_available sid)
                    (filter (\<lambda>r. fst r = Ok) (startCharging_calls calls sid d)))"
proof -
  let ?rs = "startCharging_calls calls sid d"
  have outcomes: "map fst ?rs =
      replicate k Ok @ replicate (length calls - k) (Failed NoSlotsAvailable)"
    using startCharging_calls_outcomes [OF st k, of calls] less by (simp add: min_def)
  have "length (filter (\<lambda>r. fst r = Ok) ?rs) = length (filter (\<lambda>x. x = Ok) (map fst ?rs))"
    by (simp add: filter_map comp_def)
  then have n_ok: "length (filter (\<lambda>r. fst r = Ok) ?rs) = k"
    by (simp add: outcomes)
  have "length (filter (\<lambda>r. fst r = Failed NoSlotsAvailable) ?rs) =
        length (filter (\<lambda>x. x = Failed NoSlotsAvailable) (map fst ?rs))"
    by (simp add: filter_map comp_def)
  then have n_failed: "length (filter (\<lambda>r. fst r = Failed NoSlotsAvailable) ?rs)
      = length calls - k"
    by (simp add: outcomes)
  have observed: "map (post_available sid) (filter (\<lambda>r. fst r = Ok) ?rs) =
      map (\<lambda>i. Some (int i)) (rev [0..<k])"
    using startCharging_calls_observed [OF st k, of calls] less by (simp add: min_def)
  have "distinct (map (\<lambda>i. Some (int i)) (rev [0..<k]))"
    by (simp add: distinct_map inj_on_def)
  with outcomes n_ok n_failed observed show ?thesis
    by simp
qed

text \<open>
  C6 for the last slot of \<open>S\<close>: whether \<open>A\<close> or \<open>B\<close> is committed first, the first
  call succeeds and leaves no slot, and the second fails with \<open>NoSlotsAvailable\<close>.
\<close>

theorem startCharging_serialized_witness:
  "stations db_S ''S'' = Some station_S \<and> available (slots station_S) = int 1 \<and>
   map fst (startCharging_calls [(''A'', ''s1'', 0), (''B'', ''s2'', 0)] ''S'' db_S)
     = [Ok, Failed NoSlotsAvailable] \<and>
   map fst (startCharging_calls [(''B'', ''s2'', 0), (''A'', ''s1'', 0)] ''S'' db_S)
     = [Ok, Failed NoSlotsAvailable] \<and>
   map (post_available ''S'')
     (filter (\<lambda>r. fst r = Ok)
        (startCharging_calls [(''A'', ''s1'', 0), (''B'', ''s2'', 0)] ''S'' db_S)) = [Some 0]"
  using
    startCharging_serialized [where d = db_S and sid = "''S''" and st = station_S and k = 1
      and calls = "[(''A'', ''s1'', 0), (''B'', ''s2'', 0)]"]
    startCharging_serialized [where d = db_S and sid = "''S''" and st = station_S and k = 1
      and calls = "[(''B'', ''s2'', 0), (''A'', ''s1'', 0)]"]
  by (simp add: db_S_def station_S_def startCharging_cases post_available_def)

subsection \<open>stopCharging\<close>

text \<open>
  C3, as amended. When the session read before the transaction did not exist,
  \<^verbatim>\<open>stopCharging\<close> fails with \<open>SessionNotFound\<close> and the database is as it was. When it
  existed and is still there when the transaction is committed, and \<open>bookingRef\<close> is a
  new identifier, either all four writes happen or none:
  \<^item> all four (when the station is in the local array and the station's document and the
    caller's user document exist): that session is deleted and no other; the station's
    \<open>available\<close> is one more; the \<open>loyaltyPoints\<close> of the logged-in user who stops the
    session are ten more; and one booking is stored under the new key, for the session's
    user and station, with \<open>duration = \<lfloor>(now - startTime) / 1000\<rfloor>\<close> seconds,
    \<open>kwhConsumed = duration / 3600 * 25\<close> and \<open>cost = kwhConsumed * price\<close>, where the
    price is the \<open>currentPrice\<close> of the station in the local array if that is set and not
    zero, and its \<open>pricePerKwh\<close> otherwise;
  \<^item> none: the call fails and the database is as it was.
\<close>

theorem stopCharging_all_or_nothing:
  "(activeSessions seen sessionId = None \<longrightarrow>
      stopCharging uid cache clientNow serverNow bookingRef sessionId seen d =
        (Failed SessionNotFound, d)) \<and>
   (\<forall>s. activeSessions seen sessionId = Some s \<and> activeSessions d sessionId = Some s \<and>
        bookings d bookingRef = None \<longrightarrow>
      (\<exists>stationData st u.
          map_of cache (session.stationId s) = Some stationData \<and>
          stations d (session.stationId s) = Some st \<and>
          users d uid = Some u \<and>
          stopCharging uid cache clientNow serverNow bookingRef sessionId seen d =
            (Ok, d\<lparr>activeSessions := (activeSessions d)(sessionId := None),
                   stations := (stations d)(session.stationId s \<mapsto>
                     st\<lparr>slots := (slots st)\<lparr>available := available (slots st) + 1\<rparr>\<rparr>),
                   users := (users d)(uid \<mapsto>
                     u\<lparr>profile := (profile u)
                         \<lparr>loyaltyPoints := loyaltyPoints (profile u) + 10\<rparr>\<rparr>),
                   bookings := (bookings d)(bookingRef \<mapsto>
                     \<lparr>booking.userId = session.userId s,
                      booking.stationId = session.stationId s,
                      createdAt = serverNow,
                      duration = (clientNow - startTime s) div 1000,
                      cost = real_of_int ((clientNow - startTime s) div 1000) / 3600 * 25
                          * (case currentPrice stationData of
                               None \<Rightarrow> pricePerKwh stationData
                             | Some p \<Rightarrow> if p \<noteq> 0 then p else pricePerKwh stationData),
                      kwhConsumed =
                        real_of_int ((clientNow - startTime s) div 1000) / 3600 * 25\<rparr>)\<rparr>) \<and>
          sessionId \<in> dom (activeSessions d) \<and>
          bookingRef \<notin> dom (bookings d))
      \<or>
      ((map_of cache (session.stationId s) = None \<or>
        stations d (session.stationId s) = None \<or>
        users d uid = None) \<and>
       fst (stopCharging uid cache clientNow serverNow bookingRef sessionId seen d) \<noteq> Ok \<and>
       snd (stopCharging uid cache clientNow serverNow bookingRef sessionId seen d) = d))"
  by (auto simp: stopCharging_cases find_station_map_of stop_booking_def effectivePrice_def
        increment_available_def increment_loyaltyPoints_def split: option.splits)

text \<open>
  The amended C3 on station \<open>S\<close> with base price 10 and override 8: \<open>B\<close> stops the
  session of \<open>A\<close> after two hours. The session is gone, \<open>S\<close> has its slot back, \<open>B\<close>
  has 10 points, and the booking is filed for \<open>A\<close> with 7200 seconds, 50 kWh and a cost
  of 400. Stopping with an empty local array, or an unknown session, changes nothing.
\<close>

theorem stopCharging_all_or_nothing_witness:
  "activeSessions db_S_cut ''s1''
     = Some \<lparr>session.userId = ''A'', session.stationId = ''S'', startTime = 0\<rparr> \<and>
   bookings db_S_cut ''b1'' = None \<and>
   map_of cache_TS ''S'' = Some station_S_cut \<and>
   stopCharging ''B'' cache_TS 7200000 7200001 ''b1'' ''s1'' db_S_cut db_S_cut =
     (Ok, \<lparr>stations = [''S'' \<mapsto> station_S_cut\<lparr>slots := \<lparr>total = 1, available = 1\<rparr>\<rparr>],
           activeSessions = Map.empty,
           users = [''A'' \<mapsto> user_A,
                    ''B'' \<mapsto> user_B\<lparr>profile := initial_profile\<lparr>loyaltyPoints := 10\<rparr>\<rparr>],
           bookings = [''b1'' \<mapsto>
             \<lparr>booking.userId = ''A'', booking.stationId = ''S'', createdAt = 7200001,
              duration = 7200, cost = 400, kwhConsumed = 50\<rparr>]\<rparr>) \<and>
   map_of [] ''S'' = (None :: station option) \<and>
   stopCharging ''B'' [] 7200000 7200001 ''b1'' ''s1'' db_S_cut db_S_cut
     = (Failed TypeError, db_S_cut) \<and>
   activeSessions db_S_cut ''s0'' = None \<and>
   stopCharging ''B'' cache_TS 7200000 7200001 ''b1'' ''s0'' db_S_cut db_S_cut
     = (Failed SessionNotFound, db_S_cut)"
  using
    stopCharging_all_or_nothing [where seen = db_S_cut and d = db_S_cut
      and sessionId = "''s1''" and uid = "''B''" and cache = cache_TS
      and clientNow = 7200000 and serverNow = 7200001 and bookingRef = "''b1''"]
    stopCharging_all_or_nothing [where seen = db_S_cut and d = db_S_cut
      and sessionId = "''s1''" and uid = "''B''" and cache = "[]"
      and clientNow = 7200000 and serverNow = 7200001 and bookingRef = "''b1''"]
    stopCharging_all_or_nothing [where seen = db_S_cut and d = db_S_cut
      and sessionId = "''s0''" and uid = "''B''" and cache = cache_TS
      and clientNow = 7200000 and serverNow = 7200001 and bookingRef = "''b1''"]
  by (simp add: db_S_cut_def cache_TS_def station_S_cut_def station_S_def user_A_def
        user_B_def initial_profile_def stopCharging_cases stop_booking_def effectivePrice_def
        increment_available_def increment_loyaltyPoints_def)

lemma stop_cut_A:
  "stopCharging ''A'' cache_TS 7200000 7200001 ''b1'' ''s1'' db_S_cut db_S_cut =
     (Ok, \<lparr>stations = [''S'' \<mapsto> station_S_cut\<lparr>slots := \<lparr>total = 1, available = 1\<rparr>\<rparr>],
           activeSessions = Map.empty,
           users = [''B'' \<mapsto> user_B,
                    ''A'' \<mapsto> user_A\<lparr>profile := initial_profile\<lparr>loyaltyPoints := 10\<rparr>\<rparr>],
           bookings = [''b1'' \<mapsto>
             \<lparr>booking.userId = ''A'', booking.stationId = ''S'', createdAt = 7200001,
              duration = 7200, cost = 400, kwhConsumed = 50\<rparr>]\<rparr>)"
  by (simp add: db_S_cut_def cache_TS_def station_S_cut_def station_S_def user_A_def
        user_B_def initial_profile_def stopCharging_cases stop_booking_def effectivePrice_def
        increment_available_def increment_loyaltyPoints_def)

lemma stop_cut_B:
  "users (snd (stopCharging ''B'' cache_TS 7200000 7200001 ''b1'' ''s1'' db_S_cut db_S_cut)) =
     [''A'' \<mapsto> user_A,
      ''B'' \<mapsto> user_B\<lparr>profile := initial_profile\<lparr>loyaltyPoints := 10\<rparr>\<rparr>]"
  by (simp add: db_S_cut_def cache_TS_def station_S_cut_def station_S_def user_A_def
        user_B_def initial_profile_def stopCharging_cases stop_booking_def effectivePrice_def
        increment_available_def increment_loyaltyPoints_def)

lemma stop_twice:
  "fst (stopCharging ''A'' [(''S'', station_S)] 3600000 3600000 ''b2'' ''s1''
          db_S_started db_S_stop1) = Ok"
  by (simp add: db_S_started_eq db_S_stop1_eq stopCharging_cases)

text \<open>
  C3 as stated fails in three ways. With the override 8 below the base price 10, the
  booking of 50 kWh costs 400, not 50 times the effective price 10 of the specification.
  When \<open>B\<close> stops the session of \<open>A\<close>, the points go to \<open>B\<close> and \<open>A\<close> keeps 0. And
  when \<open>A\<close> stops twice, both reads answered before either commit, the second stop
  succeeds although the session is gone, and \<open>S\<close> goes from 1 to 2 free slots.
\<close>

theorem stopCharging_claim_counterexample:
  "activeSessions db_S_cut ''s1''
     = Some \<lparr>session.userId = ''A'', session.stationId = ''S'', startTime = 0\<rparr> \<and>
   currentPrice station_S_cut = Some 8 \<and> pricePerKwh station_S_cut = 10 \<and>
   spec_effectivePrice station_S_cut = 10 \<and>
   map_option kwhConsumed
     (bookings (snd (stopCharging ''A'' cache_TS 7200000 7200001 ''b1'' ''s1''
                       db_S_cut db_S_cut)) ''b1'') = Some 50 \<and>
   map_option cost
     (bookings (snd (stopCharging ''A'' cache_TS 7200000 7200001 ''b1'' ''s1''
                       db_S_cut db_S_cut)) ''b1'') = Some 400 \<and>
   (400 :: real) \<noteq> 50 * spec_effectivePrice station_S_cut \<and>
   map_option (loyaltyPoints \<circ> profile)
     (users (snd (stopCharging ''B'' cache_TS 7200000 7200001 ''b1'' ''s1''
                    db_S_cut db_S_cut)) ''A'') = Some 0 \<and>
   map_option (loyaltyPoints \<circ> profile)
     (users (snd (stopCharging ''B'' cache_TS 7200000 7200001 ''b1'' ''s1''
                    db_S_cut db_S_cut)) ''B'') = Some 10 \<and>
   activeSessions db_S_stop1 ''s1'' = None \<and>
   fst (stopCharging ''A'' [(''S'', station_S)] 3600000 3600000 ''b2'' ''s1''
          db_S_started db_S_stop1) = Ok \<and>
   map_option (available \<circ> slots) (stations db_S_stop1 ''S'') = Some 1 \<and>
   map_option (available \<circ> slots) (stations db_S_stop2 ''S'') = Some 2"
  unfolding stop_cut_A stop_cut_B stop_twice
  by (simp add: spec_effectivePrice_def station_S_cut_def station_S_def db_S_cut_def
        db_S_stop1_eq db_S_stop2_stations user_A_def user_B_def initial_profile_def)

text \<open>
  Where the price of \<^verbatim>\<open>stopCharging\<close> and the effective price of the specification
  agree: everywhere but at an override that is set, not zero and below the base price
  (and at an override of zero over a negative base price).
\<close>

lemma effectivePrice_vs_spec:
  "effectivePrice st = spec_effectivePrice st \<longleftrightarrow>
     \<not> (\<exists>p. currentPrice st = Some p \<and>
            ((p \<noteq> 0 \<and> p < pricePerKwh st) \<or> (p = 0 \<and> pricePerKwh st < 0)))"
  by (auto simp: effectivePrice_def spec_effectivePrice_def split: option.splits)

text \<open>
  C4, as amended. The booking of a successful \<^verbatim>\<open>stopCharging\<close> has
  \<open>cost = kwhConsumed * currentPrice\<close> whenever \<open>currentPrice\<close> is set and not zero,
  whether or not it is greater than \<open>pricePerKwh\<close>, and
  \<open>cost = kwhConsumed * pricePerKwh\<close> when \<open>currentPrice\<close> is absent or zero. This is
  the effective price of the specification except when \<open>currentPrice\<close> is set, not
  zero and below \<open>pricePerKwh\<close> (or zero over a negative \<open>pricePerKwh\<close>).
\<close>

theorem stopCharging_cost_price:
  assumes ok: "stopCharging uid cache clientNow serverNow bookingRef sessionId seen d = (Ok, d')"
      and sess: "activeSessions seen sessionId = Some s"
      and cached: "find_station cache (session.stationId s) = Some stationData"
  shows "\<exists>b. bookings d' bookingRef = Some b \<and>
           (\<forall>p. currentPrice stationData = Some p \<and> p \<noteq> 0 \<longrightarrow>
                  cost b = kwhConsumed b * p) \<and>
           (currentPrice stationData = None \<or> currentPrice stationData = Some 0 \<longrightarrow>
                  cost b = kwhConsumed b * pricePerKwh stationData) \<and>
           (\<not> (\<exists>p. currentPrice stationData = Some p \<and>
                  ((p \<noteq> 0 \<and> p < pricePerKwh stationData) \<or>
                   (p = 0 \<and> pricePerKwh stationData < 0))) \<longrightarrow>
                  cost b = kwhConsumed b * spec_effectivePrice stationData)"
proof -
  from ok sess cached
  have b: "bookings d' bookingRef = Some (stop_booking s stationData clientNow serverNow)"
    by (auto simp: stopCharging_cases split: option.splits)
  have c: "cost (stop_booking s stationData clientNow serverNow) =
           kwhConsumed (stop_booking s stationData clientNow serverNow)
             * effectivePrice stationData"
    by (simp add: stop_booking_def)
  have "\<forall>p. currentPrice stationData = Some p \<and> p \<noteq> 0 \<longrightarrow> effectivePrice stationData = p"
    by (simp add: effectivePrice_def)
  moreover have "currentPrice stationData = None \<or> currentPrice stationData = Some 0 \<longrightarrow>
      effectivePrice stationData = pricePerKwh stationData"
    by (auto simp: effectivePrice_def)
  moreover have "\<not> (\<exists>p. currentPrice stationData = Some p \<and>
                  ((p \<noteq> 0 \<and> p < pricePerKwh stationData) \<or>
                   (p = 0 \<and> pricePerKwh stationData < 0))) \<longrightarrow>
      effectivePrice stationData = spec_effectivePrice stationData"
    using effectivePrice_vs_spec [of stationData] by blast
  ultimately show ?thesis
    using b c by simp
qed

text \<open>One hour at \<open>S\<close> with base price 10 and override 5: 25 kWh, cost 125.\<close>

lemma stop_low:
  "stopCharging ''A'' [(''S'', station_S_low)] 3600000 3600000 ''b1'' ''s1'' db_S_low db_S_low =
     (Ok, \<lparr>stations = [''S'' \<mapsto> station_S_low\<lparr>slots := \<lparr>total = 1, available = 1\<rparr>\<rparr>],
           activeSessions = Map.empty,
           users = [''A'' \<mapsto> user_A\<lparr>profile := initial_profile\<lparr>loyaltyPoints := 10\<rparr>\<rparr>],
           bookings = [''b1'' \<mapsto>
             \<lparr>booking.userId = ''A'', booking.stationId = ''S'', createdAt = 3600000,
              duration = 3600, cost = 125, kwhConsumed = 25\<rparr>]\<rparr>)"
  by (simp add: db_S_low_def station_S_low_def station_S_def user_A_def initial_profile_def
        stopCharging_cases stop_booking_def effectivePrice_def increment_available_def
        increment_loyaltyPoints_def)

theorem stopCharging_cost_price_witness:
  "stopCharging ''A'' [(''S'', station_S_low)] 3600000 3600000 ''b1'' ''s1'' db_S_low db_S_low =
     (Ok, snd (stopCharging ''A'' [(''S'', station_S_low)] 3600000 3600000 ''b1'' ''s1''
                 db_S_low db_S_low)) \<and>
   currentPrice station_S_low = Some 5 \<and> pricePerKwh station_S_low = 10 \<and>
   (\<exists>b. bookings (snd (stopCharging ''A'' [(''S'', station_S_low)] 3600000 3600000 ''b1''
                         ''s1'' db_S_low db_S_low)) ''b1'' = Some b \<and>
        kwhConsumed b = 25 \<and> cost b = 125)"
proof -
  have ok: "stopCharging ''A'' [(''S'', station_S_low)] 3600000 3600000 ''b1'' ''s1''
              db_S_low db_S_low =
     (Ok, snd (stopCharging ''A'' [(''S'', station_S_low)] 3600000 3600000 ''b1'' ''s1''
                 db_S_low db_S_low))"
    by (simp add: stop_low)
  have sess: "activeSessions db_S_low ''s1'' =
      Some \<lparr>session.userId = ''A'', session.stationId = ''S'', startTime = 0\<rparr>"
    by (simp add: db_S_low_def)
  have cached: "find_station [(''S'', station_S_low)]
      (session.stationId \<lparr>session.userId = ''A'', session.stationId = ''S'', startTime = 0\<rparr>)
        = Some station_S_low"
    by simp
  have price: "currentPrice station_S_low = Some 5" "pricePerKwh station_S_low = 10"
    by (simp_all add: station_S_low_def station_S_def)
  from stopCharging_cost_price [OF ok sess cached] show ?thesis
    by (simp add: stop_low price)
qed

text \<open>
  C4 as stated fails: with \<open>currentPrice = 5\<close> set but below \<open>pricePerKwh = 10\<close>, the
  claim computes the cost of 25 kWh from the base price, 250; \<^verbatim>\<open>stopCharging\<close> stores
  125.
\<close>

theorem effectivePrice_counterexample:
  "currentPrice station_S_low = Some 5 \<and> pricePerKwh station_S_low = 10 \<and>
   spec_effectivePrice station_S_low = 10 \<and>
   map_option kwhConsumed
     (bookings (snd (stopCharging ''A'' [(''S'', station_S_low)] 3600000 3600000 ''b1'' ''s1''
                       db_S_low db_S_low)) ''b1'') = Some 25 \<and>
   map_option cost
     (bookings (snd (stopCharging ''A'' [(''S'', station_S_low)] 3600000 3600000 ''b1'' ''s1''
                       db_S_low db_S_low)) ''b1'') = Some 125 \<and>
   (125 :: real) \<noteq> 25 * spec_effectivePrice station_S_low"
  unfolding stop_low
  by (simp add: spec_effectivePrice_def station_S_low_def station_S_def)

subsection \<open>joinQueue\<close>

lemma joinQueue_cases:
  "joinQueue uid sid d =
     (case stations d sid of
        None \<Rightarrow> (Failed DocumentMissing, d)
      | Some st \<Rightarrow>
          (Ok, d\<lparr>stations := (stations d)(sid \<mapsto>
                  st\<lparr>queue := Some (arrayUnion (queue st) uid)\<rparr>)\<rparr>))"
  by (simp add: joinQueue_def tx_defs split: option.splits)

lemma arrayUnion_queue:
  "arrayUnion (queue st) uid =
     (if uid \<in> set (queue_list st) then queue_list st else queue_list st @ [uid])"
  by (simp add: arrayUnion_def queue_list_def Let_def)

lemma queue_present: "uid \<in> set (queue_list st) \<Longrightarrow> queue st = Some (queue_list st)"
  by (cases "queue st") (simp_all add: queue_list_def)

lemma queue_list_update: "queue_list (st\<lparr>queue := Some q\<rparr>) = q"
  by (simp add: queue_list_def)

lemma joinQueue_calls_distinct:
  assumes "stations d sid = Some st" and "distinct (queue_list st)"
  shows "\<exists>st'. stations (joinQueue_calls uids sid d) sid = Some st' \<and>
               distinct (queue_list st') \<and>
               (\<exists>ys. queue_list st' = queue_list st @ ys) \<and>
               set (queue_list st') = set (queue_list st) \<union> set uids"
  using assms
proof (induction uids arbitrary: d st)
  case Nil
  then show ?case by simp
next
  case (Cons uid uids)
  let ?st1 = "st\<lparr>queue := Some (arrayUnion (queue st) uid)\<rparr>"
  let ?d1 = "snd (joinQueue uid sid d)"
  have s1: "stations ?d1 sid = Some ?st1"
    using Cons.prems(1) by (simp add: joinQueue_cases)
  have q1: "queue_list ?st1 =
      (if uid \<in> set (queue_list st) then queue_list st else queue_list st @ [uid])"
    by (simp add: queue_list_update arrayUnion_queue)
  have d1: "distinct (queue_list ?st1)"
    using Cons.prems(2) by (simp add: q1)
  from Cons.IH [OF s1 d1] obtain st' ys where
    st': "stations (joinQueue_calls uids sid ?d1) sid = Some st'"
         "distinct (queue_list st')"
         "queue_list st' = queue_list ?st1 @ ys"
         "set (queue_list st') = set (queue_list ?st1) \<union> set uids"
    by blast
  have "\<exists>zs. queue_list st' = queue_list st @ zs"
    using st'(3) by (simp add: q1 split: if_splits)
  moreover have "set (queue_list st') = set (queue_list st) \<union> set (uid # uids)"
    using st'(4) by (auto simp: q1 split: if_splits)
  ultimately show ?case
    using st'(1,2) by simp
qed

text \<open>
  C5. On an existing station, \<^verbatim>\<open>joinQueue\<close> by a user not in the queue stores the old
  queue with the user added at the end, and by a user already in the queue changes
  nothing at all. So a queue without duplicates keeps none through any sequence of
  \<^verbatim>\<open>joinQueue\<close> calls, and the queue as it was stays the front of the queue, in order;
  a station created by the admin form starts with the empty queue.
\<close>

theorem joinQueue_fifo_no_duplicates:
  assumes st: "stations d sid = Some st"
  shows "(uid \<notin> set (queue_list st) \<longrightarrow>
            joinQueue uid sid d =
              (Ok, d\<lparr>stations := (stations d)(sid \<mapsto>
                      st\<lparr>queue := Some (queue_list st @ [uid])\<rparr>)\<rparr>)) \<and>
         (uid \<in> set (queue_list st) \<longrightarrow> joinQueue uid sid d = (Ok, d)) \<and>
         (distinct (queue_list st) \<longrightarrow>
            (\<forall>uids. \<exists>st'. stations (joinQueue_calls uids sid d) sid = Some st' \<and>
                distinct (queue_list st') \<and>
                (\<exists>ys. queue_list st' = queue_list st @ ys) \<and>
                set (queue_list st') = set (queue_list st) \<union> set uids))"
proof (intro conjI impI allI)
  assume "uid \<notin> set (queue_list st)"
  with st show "joinQueue uid sid d =
      (Ok, d\<lparr>stations := (stations d)(sid \<mapsto> st\<lparr>queue := Some (queue_list st @ [uid])\<rparr>)\<rparr>)"
    by (simp add: joinQueue_cases arrayUnion_queue)
next
  assume "uid \<in> set (queue_list st)"
  then have "st\<lparr>queue := Some (arrayUnion (queue st) uid)\<rparr> = st"
    by (simp add: arrayUnion_queue queue_present [symmetric])
  moreover have "(stations d)(sid \<mapsto> st) = stations d"
    using st by (rule map_upd_triv)
  ultimately show "joinQueue uid sid d = (Ok, d)"
    using st by (simp add: joinQueue_cases)
next
  fix uids
  assume "distinct (queue_list st)"
  with st show "\<exists>st'. stations (joinQueue_calls uids sid d) sid = Some st' \<and>
                distinct (queue_list st') \<and>
                (\<exists>ys. queue_list st' = queue_list st @ ys) \<and>
                set (queue_list st') = set (queue_list st) \<union> set uids"
    by (rule joinQueue_calls_distinct)
qed

text \<open>
  C5 in the scenario: \<open>B\<close> joins the empty queue of \<open>S\<close>; \<open>B\<close> joining again changes
  nothing; the calls by \<open>B\<close>, \<open>A\<close>, \<open>B\<close> leave the queue \<open>[B, A]\<close>.
\<close>

theorem joinQueue_fifo_no_duplicates_witness:
  "stations db_S ''S'' = Some station_S \<and> queue_list station_S = [] \<and>
   joinQueue ''B'' ''S'' db_S =
     (Ok, db_S\<lparr>stations := [''S'' \<mapsto> station_S\<lparr>queue := Some [''B'']\<rparr>]\<rparr>) \<and>
   joinQueue ''B'' ''S'' (db_S\<lparr>stations := [''S'' \<mapsto> station_S\<lparr>queue := Some [''B'']\<rparr>]\<rparr>) =
     (Ok, db_S\<lparr>stations := [''S'' \<mapsto> station_S\<lparr>queue := Some [''B'']\<rparr>]\<rparr>) \<and>
   map_option queue (stations (joinQueue_calls [''B'', ''A'', ''B''] ''S'' db_S) ''S'')
     = Some (Some [''B'', ''A''])"
  using
    joinQueue_fifo_no_duplicates [where d = db_S and sid = "''S''" and st = station_S
      and uid = "''B''"]
    joinQueue_fifo_no_duplicates [where sid = "''S''" and uid = "''B''"
      and d = "db_S\<lparr>stations := [''S'' \<mapsto> station_S\<lparr>queue := Some [''B'']\<rparr>]\<rparr>"
      and st = "station_S\<lparr>queue := Some [''B'']\<rparr>"]
  by (simp add: db_S_def station_S_def queue_list_def joinQueue_cases arrayUnion_def)

subsection \<open>The admin station form\<close>

text \<open>
  C7. The handler reads the slot counts with \<^verbatim>\<open>parseInt\<close>, which stops at the first
  character that is not a digit. A number input holds ten as \<^verbatim>\<open>1e1\<close> as well as
  \<^verbatim>\<open>10\<close>, and five as \<^verbatim>\<open>.5e1\<close>:
  \<^item> total \<^verbatim>\<open>5\<close> with available \<^verbatim>\<open>1e1\<close> is accepted, and read back the station has
    available 1;
  \<^item> total \<^verbatim>\<open>1e1\<close> with available \<^verbatim>\<open>5\<close> is refused;
  \<^item> total \<^verbatim>\<open>5\<close> with available \<^verbatim>\<open>.5e1\<close> is accepted and \<^verbatim>\<open>NaN\<close> is stored.
\<close>

theorem adminStationForm_exponent_input:
  "parseInt ''5'' = Number 5 \<and> parseInt ''1e1'' = Number 1 \<and> parseInt ''.5e1'' = NaN \<and>
   adminStationFormSubmit
       (form_S\<lparr>station_slots_total := ''5'', station_slots_available := ''1e1''\<rparr>) ''n1'' db_S =
     Saved (db_S\<lparr>stations := (stations db_S)
              (''n1'' \<mapsto> station_S\<lparr>slots := \<lparr>total = 5, available = 1\<rparr>\<rparr>)\<rparr>) \<and>
   adminStationFormSubmit
       (form_S\<lparr>station_slots_total := ''1e1'', station_slots_available := ''5''\<rparr>) ''n1'' db_S =
     Refused SlotsExceedTotal \<and>
   adminStationFormSubmit
       (form_S\<lparr>station_slots_total := ''5'', station_slots_available := ''.5e1''\<rparr>) ''n1'' db_S =
     SavedNaN ''n1''"
proof -
  have "adminStationFormSubmit
       (form_S\<lparr>station_slots_total := ''5'', station_slots_available := ''1e1''\<rparr>) ''n1'' db_S =
     Saved (db_S\<lparr>stations := (stations db_S)
              (''n1'' \<mapsto> station_S\<lparr>slots := \<lparr>total = 5, available = 1\<rparr>\<rparr>)\<rparr>)"
    by (simp add: adminStationFormSubmit_numbers [where t = 5 and a = 1 and p = 10]
          form_S_def parseInt_examples station_S_def)
  moreover have "adminStationFormSubmit
       (form_S\<lparr>station_slots_total := ''1e1'', station_slots_available := ''5''\<rparr>) ''n1'' db_S =
     Refused SlotsExceedTotal"
    by (simp add: adminStationFormSubmit_numbers [where t = 1 and a = 5 and p = 10]
          form_S_def parseInt_examples)
  moreover have "adminStationFormSubmit
       (form_S\<lparr>station_slots_total := ''5'', station_slots_available := ''.5e1''\<rparr>) ''n1'' db_S =
     SavedNaN ''n1''"
    by (simp add: adminStationFormSubmit_def form_S_def parseInt_examples)
  ultimately show ?thesis
    by (simp add: parseInt_examples)
qed

text \<open>
  C8. An accepted edit of an existing station replaces that one document by the eleven
  form fields together with the \<open>queue\<close> and \<open>currentPrice\<close> it had before, and changes
  nothing else in the database. An accepted new station is stored with the empty queue.
  Here the three \<^verbatim>\<open>parseInt\<close> results are numbers.
\<close>

theorem adminStationForm_frame:
  "(\<forall>st t a p. station_id form \<noteq> [] \<and> stations d (station_id form) = Some st \<and>
         parseInt (station_slots_total form) = Number t \<and>
         parseInt (station_slots_available form) = Number a \<and>
         parseInt (station_price form) = Number p \<and> a \<le> t \<longrightarrow>
      adminStationFormSubmit form newRef d =
        Saved (d\<lparr>stations := (stations d)(station_id form \<mapsto>
           \<lparr>name = station_name form,
            city = station_city form,
            lat = station_lat form,
            lng = station_lng form,
            mobile = station_mobile form,
            slots = \<lparr>total = t, available = a\<rparr>,
            pricePerKwh = real_of_int p,
            status = station_status form,
            images = [station_image form],
            amenities = station_amenities form,
            chargerTypes = station_chargers form,
            queue = queue st,
            currentPrice = currentPrice st\<rparr>)\<rparr>)) \<and>
   (\<forall>t a p. station_id form = [] \<and>
         parseInt (station_slots_total form) = Number t \<and>
         parseInt (station_slots_available form) = Number a \<and>
         parseInt (station_price form) = Number p \<and> a \<le> t \<longrightarrow>
      (\<exists>d' st. adminStationFormSubmit form newRef d = Saved d' \<and>
               stations d' newRef = Some st \<and> queue st = Some []))"
  by (auto simp: adminStationFormSubmit_numbers)

text \<open>
  C8 on \<open>S\<close> with \<open>B\<close> queued and the override price 5: after the edit the queue is
  still \<open>[B]\<close> and the override still 5; a new station has the queue \<open>[]\<close>.
\<close>

theorem adminStationForm_frame_witness:
  "station_id form_S_edit \<noteq> [] \<and>
   parseInt (station_slots_total form_S_edit) = Number 1 \<and>
   parseInt (station_slots_available form_S_edit) = Number 1 \<and>
   parseInt (station_price form_S_edit) = Number 10 \<and>
   adminStationFormSubmit form_S_edit ''n1''
       (db_S_low\<lparr>stations := [''S'' \<mapsto> station_S_low\<lparr>queue := Some [''B'']\<rparr>]\<rparr>) =
     Saved (db_S_low\<lparr>stations :=
        [''S'' \<mapsto> station_S\<lparr>queue := Some [''B''], currentPrice := Some 5\<rparr>]\<rparr>) \<and>
   station_id form_S = [] \<and>
   map_option queue
     (stations (db_after (adminStationFormSubmit form_S ''n1'' db_S_low) db_S_low) ''n1'')
     = Some (Some [])"
  using
    adminStationForm_frame [where form = form_S_edit and newRef = "''n1''" and
      d = "db_S_low\<lparr>stations := [''S'' \<mapsto> station_S_low\<lparr>queue := Some [''B'']\<rparr>]\<rparr>"]
    adminStationForm_frame [where form = form_S and newRef = "''n1''" and d = db_S_low]
  by (auto simp: form_S_edit_def form_S_def db_S_low_def station_S_low_def station_S_def
        parseInt_examples db_after_def)

subsection \<open>toggleFavorite\<close>

lemma indexOf_from_eq:
  "indexOf_from xs x i =
     (if x \<in> set xs then i + int (length (takeWhile (\<lambda>y. y \<noteq> x) xs)) else - 1)"
  by (induction xs arbitrary: i) auto

lemma splice1_first:
  "x \<in> set xs \<Longrightarrow>
     splice1 (int (length (takeWhile (\<lambda>y. y \<noteq> x) xs))) xs = remove1 x xs"
  unfolding splice1_def
  by (induction xs) auto

lemma favorites_toggleFavorite:
  "favorites (toggleFavorite s p) =
     (if s \<in> set (favorites p) then remove1 s (favorites p) else favorites p @ [s])"
  by (simp add: toggleFavorite_def indexOf_def indexOf_from_eq splice1_first Let_def)

text \<open>
  C9, as amended. On a favorites list without duplicates, \<^verbatim>\<open>toggleFavorite(s)\<close> flips
  the membership of \<open>s\<close>, leaves the membership of every other identifier as it was,
  and leaves the list without duplicates; toggling twice restores the set of favorites.
  The list of a registered user starts empty and is only ever changed by
  \<^verbatim>\<open>toggleFavorite\<close>, so it never has duplicates.
\<close>

theorem toggleFavorite_flips:
  assumes "distinct (favorites p)"
  shows "(s \<in> set (favorites (toggleFavorite s p)) \<longleftrightarrow> s \<notin> set (favorites p)) \<and>
         (\<forall>t. t \<noteq> s \<longrightarrow>
            (t \<in> set (favorites (toggleFavorite s p)) \<longleftrightarrow> t \<in> set (favorites p))) \<and>
         set (favorites (toggleFavorite s (toggleFavorite s p))) = set (favorites p) \<and>
         distinct (favorites (toggleFavorite s p))"
proof -
  let ?f = "favorites p" and ?g = "favorites (toggleFavorite s p)"
  have g: "?g = (if s \<in> set ?f then remove1 s ?f else ?f @ [s])"
    by (rule favorites_toggleFavorite)
  have dg: "distinct ?g"
    using assms by (simp add: g)
  have flip: "s \<in> set ?g \<longleftrightarrow> s \<notin> set ?f"
    using assms by (simp add: g)
  have others: "\<forall>t. t \<noteq> s \<longrightarrow> (t \<in> set ?g \<longleftrightarrow> t \<in> set ?f)"
    using assms by (auto simp: g)
  have twice: "set (favorites (toggleFavorite s (toggleFavorite s p))) = set ?f"
  proof (cases "s \<in> set ?f")
    case True
    then have "s \<notin> set ?g" using flip by simp
    then have "favorites (toggleFavorite s (toggleFavorite s p)) = ?g @ [s]"
      by (simp add: favorites_toggleFavorite [of s "toggleFavorite s p"])
    with True assms show ?thesis by (auto simp: g)
  next
    case False
    then have "s \<in> set ?g" using flip by simp
    then have "favorites (toggleFavorite s (toggleFavorite s p)) = remove1 s ?g"
      by (simp add: favorites_toggleFavorite [of s "toggleFavorite s p"])
    with False dg show ?thesis by (auto simp: g)
  qed
  from flip others twice dg show ?thesis by blast
qed

text \<open>Toggling \<open>S\<close> in \<open>[T, S, U]\<close> gives \<open>[T, U]\<close>; toggling again gives \<open>[T, U, S]\<close>.\<close>

theorem toggleFavorite_flips_witness:
  "distinct (favorites (initial_profile\<lparr>favorites := [''T'', ''S'', ''U'']\<rparr>)) \<and>
   favorites (toggleFavorite ''S'' (initial_profile\<lparr>favorites := [''T'', ''S'', ''U'']\<rparr>))
     = [''T'', ''U''] \<and>
   favorites (toggleFavorite ''S''
      (toggleFavorite ''S'' (initial_profile\<lparr>favorites := [''T'', ''S'', ''U'']\<rparr>)))
     = [''T'', ''U'', ''S'']"
  using toggleFavorite_flips [of "initial_profile\<lparr>favorites := [''T'', ''S'', ''U'']\<rparr>" "''S''"]
  by (simp add: initial_profile_def toggleFavorite_def indexOf_def splice1_def)

text \<open>
  C9 as stated, for every favorites list, fails on a list that holds \<open>S\<close> twice:
  \<^verbatim>\<open>splice(index, 1)\<close> removes the first occurrence only, so \<open>S\<close> is still a favorite
  after the toggle, and two toggles do not restore the set.
\<close>

theorem toggleFavorite_counterexample:
  "''S'' \<in> set (favorites (initial_profile\<lparr>favorites := [''S'', ''S'']\<rparr>)) \<and>
   ''S'' \<in> set (favorites (toggleFavorite ''S''
                              (initial_profile\<lparr>favorites := [''S'', ''S'']\<rparr>))) \<and>
   set (favorites (toggleFavorite ''S'' (toggleFavorite ''S''
                              (initial_profile\<lparr>favorites := [''S'', ''S'']\<rparr>))))
     \<noteq> set (favorites (initial_profile\<lparr>favorites := [''S'', ''S'']\<rparr>))"
  by (simp add: initial_profile_def toggleFavorite_def indexOf_def splice1_def)

subsection \<open>handleRegister\<close>

text \<open>
  C10. Registration succeeds exactly when the password has at least six characters and
  the identity provider accepts the sign-up; the document stored for the new user then
  has the selected role and the profile
  \<open>{favorites: [], vehicle: 'Other', theme: 'light', loyaltyPoints: 0, hasCompletedTour: false}\<close>,
  and nothing else in the database changes. A failed registration changes nothing.
\<close>

theorem handleRegister_initial_profile:
  "(6 \<le> length password \<and> createUser email' password = UserCredential uid userEmail \<longrightarrow>
      handleRegister createUser email' password role' d =
        (Ok, d\<lparr>users := (users d)(uid \<mapsto>
               \<lparr>email = userEmail, role = role',
                profile = \<lparr>favorites = [], vehicle = ''Other'', theme = ''light'',
                           loyaltyPoints = 0, hasCompletedTour = False\<rparr>\<rparr>)\<rparr>)) \<and>
   (fst (handleRegister createUser email' password role' d) = Ok \<longrightarrow>
      (\<exists>newUid newEmail.
          6 \<le> length password \<and>
          createUser email' password = UserCredential newUid newEmail \<and>
          snd (handleRegister createUser email' password role' d) =
            d\<lparr>users := (users d)(newUid \<mapsto>
               \<lparr>email = newEmail, role = role',
                profile = \<lparr>favorites = [], vehicle = ''Other'', theme = ''light'',
                           loyaltyPoints = 0, hasCompletedTour = False\<rparr>\<rparr>)\<rparr>)) \<and>
   (fst (handleRegister createUser email' password role' d) \<noteq> Ok \<longrightarrow>
      snd (handleRegister createUser email' password role' d) = d)"
  by (auto simp: handleRegister_def initial_profile_def split: auth_result.splits if_splits)

text \<open>C10 for a sign-up as admin: the document of \<open>A\<close>; a short password is refused.\<close>

theorem handleRegister_initial_profile_witness:
  "6 \<le> length ''secret'' \<and>
   accept_as_A ''a@ev.net'' ''secret'' = UserCredential ''A'' ''a@ev.net'' \<and>
   handleRegister accept_as_A ''a@ev.net'' ''secret'' ''admin'' db_S =
     (Ok, db_S\<lparr>users := (users db_S)(''A'' \<mapsto>
            \<lparr>email = ''a@ev.net'', role = ''admin'',
             profile = \<lparr>favorites = [], vehicle = ''Other'', theme = ''light'',
                        loyaltyPoints = 0, hasCompletedTour = False\<rparr>\<rparr>)\<rparr>) \<and>
   handleRegister accept_as_A ''a@ev.net'' ''short'' ''admin'' db_S
     = (Failed PasswordTooShort, db_S)"
  using
    handleRegister_initial_profile [where createUser = accept_as_A and email' = "''a@ev.net''"
      and password = "''secret''" and role' = "''admin''" and d = db_S and uid = "''A''"
      and userEmail = "''a@ev.net''"]
    handleRegister_initial_profile [where createUser = accept_as_A and email' = "''a@ev.net''"
      and password = "''short''" and role' = "''admin''" and d = db_S]
  by (simp add: accept_as_A_def handleRegister_def)

end
